theory Spec2Isabelle
  imports Complex_Main
begin

section \<open>JavaScript values\<close>

text \<open>
  A layer's properties are a dynamically typed mapping. The values the schema can hold
  are the primitive ones: \<open>undefined\<close>, \<open>null\<close>, booleans, numbers and strings.

  Numbers are IEEE 754 doubles. A finite double is represented by the real number it
  denotes; \<open>NaN\<close> and the two infinities are values of their own. Every arithmetic
  operation computes the exact real result and rounds it to the nearest double, ties to
  even, overflowing to an infinity. The sign of zero is not represented: the program never
  divides by a computed value, so nothing but the sign of a zero result depends on it.
\<close>

datatype jsnum = Fin real | NaN | PosInf | NegInf

datatype jsval = JUndefined | JNull | JBool bool | JNum jsnum | JStr string

datatype error = TypeError

text \<open>
  The two conversions between numbers and strings belong to the language runtime, not
  to this repository: the model takes them as parameters.
\<close>

record runtime =
  numToString :: "jsnum \<Rightarrow> string"
  stringToNumber :: "string \<Rightarrow> jsnum"

subsection \<open>Rounding to a double\<close>

text \<open>The number of binary digits of a positive integer.\<close>

function bit_length :: "int \<Rightarrow> int" where
  "bit_length n = (if n \<le> 0 then 0 else 1 + bit_length (n div 2))"
  by pat_completeness auto
termination
  by (relation "measure nat") auto

declare bit_length.simps [simp del]

text \<open>The binary exponent of a positive real \<open>x\<close>: the \<open>e\<close> with \<open>2^e \<le> x < 2^(e+1)\<close>.\<close>

definition binade :: "real \<Rightarrow> int" where
  "binade x = (if 1 \<le> x then bit_length \<lfloor>x\<rfloor> - 1 else - bit_length (\<lceil>1 / x\<rceil> - 1))"

definition pow2 :: "int \<Rightarrow> real" where
  "pow2 k = (if 0 \<le> k then 2 ^ nat k else 1 / 2 ^ nat (- k))"

text \<open>Rounding to the nearest integer, a tie going to the even one.\<close>

definition rne :: "real \<Rightarrow> int" where
  "rne y = (let f = \<lfloor>y\<rfloor>; d = y - of_int f
            in if d < 1 / 2 then f else if 1 / 2 < d then f + 1
               else if even f then f else f + 1)"

text \<open>
  Rounding a real to the nearest double: 53 significant binary digits, exponents from
  \<open>-1022\<close> (below which the spacing stays \<open>2^-1074\<close>) to 1023, and an infinity
  from \<open>2^1024 - 2^970\<close> on, the midpoint between the largest double and \<open>2^1024\<close>.
\<close>

definition round_double :: "real \<Rightarrow> jsnum" where
  "round_double x =
     (if x = 0 then Fin 0
      else if 2 ^ 1024 - 2 ^ 970 \<le> \<bar>x\<bar> then (if 0 < x then PosInf else NegInf)
      else let q = pow2 (max (binade \<bar>x\<bar>) (- 1022) - 52)
           in Fin (of_int (rne (x / q)) * q))"

text \<open>The value of a decimal literal of the source, such as \<open>1.2\<close>.\<close>

definition num_lit :: "real \<Rightarrow> jsnum" where
  "num_lit r = round_double r"

subsection \<open>Arithmetic and comparison of numbers\<close>

fun num_add :: "jsnum \<Rightarrow> jsnum \<Rightarrow> jsnum" where
  "num_add NaN _ = NaN"
| "num_add _ NaN = NaN"
| "num_add PosInf NegInf = NaN"
| "num_add NegInf PosInf = NaN"
| "num_add PosInf _ = PosInf"
| "num_add _ PosInf = PosInf"
| "num_add NegInf _ = NegInf"
| "num_add _ NegInf = NegInf"
| "num_add (Fin a) (Fin b) = round_double (a + b)"

definition num_sign :: "jsnum \<Rightarrow> real" where
  "num_sign n = (case n of Fin a \<Rightarrow> sgn a | PosInf \<Rightarrow> 1 | NegInf \<Rightarrow> - 1 | NaN \<Rightarrow> 0)"

definition signed_inf :: "real \<Rightarrow> jsnum" where
  "signed_inf s = (if s = 0 then NaN else if 0 < s then PosInf else NegInf)"

fun num_mul :: "jsnum \<Rightarrow> jsnum \<Rightarrow> jsnum" where
  "num_mul NaN _ = NaN"
| "num_mul _ NaN = NaN"
| "num_mul (Fin a) (Fin b) = round_double (a * b)"
| "num_mul a b = signed_inf (num_sign a * num_sign b)"

text \<open>Division; a zero divisor counts as positive zero.\<close>

fun num_div :: "jsnum \<Rightarrow> jsnum \<Rightarrow> jsnum" where
  "num_div NaN _ = NaN"
| "num_div _ NaN = NaN"
| "num_div (Fin a) (Fin b) = (if b = 0 then signed_inf (sgn a) else round_double (a / b))"
| "num_div (Fin a) _ = Fin 0"
| "num_div a (Fin b) = signed_inf (num_sign a * (if b < 0 then - 1 else 1))"
| "num_div _ _ = NaN"

fun num_lt :: "jsnum \<Rightarrow> jsnum \<Rightarrow> bool" where
  "num_lt NaN _ = False"
| "num_lt _ NaN = False"
| "num_lt (Fin a) (Fin b) = (a < b)"
| "num_lt NegInf b = (b \<noteq> NegInf)"
| "num_lt a PosInf = (a \<noteq> PosInf)"
| "num_lt _ _ = False"

subsection \<open>Conversions and operators on values\<close>

fun typeof :: "jsval \<Rightarrow> string" where
  "typeof JUndefined = ''undefined''"
| "typeof JNull = ''object''"
| "typeof (JBool _) = ''boolean''"
| "typeof (JNum _) = ''number''"
| "typeof (JStr _) = ''string''"

fun toBoolean :: "jsval \<Rightarrow> bool" where
  "toBoolean JUndefined = False"
| "toBoolean JNull = False"
| "toBoolean (JBool b) = b"
| "toBoolean (JNum n) = (n \<noteq> Fin 0 \<and> n \<noteq> NaN)"
| "toBoolean (JStr s) = (s \<noteq> [])"

fun toNumber :: "runtime \<Rightarrow> jsval \<Rightarrow> jsnum" where
  "toNumber rt JUndefined = NaN"
| "toNumber rt JNull = Fin 0"
| "toNumber rt (JBool b) = (if b then Fin 1 else Fin 0)"
| "toNumber rt (JNum n) = n"
| "toNumber rt (JStr s) = stringToNumber rt s"

text \<open>\<open>toString\<close> is what a template literal applies to an interpolated value.\<close>

fun toString :: "runtime \<Rightarrow> jsval \<Rightarrow> string" where
  "toString rt JUndefined = ''undefined''"
| "toString rt JNull = ''null''"
| "toString rt (JBool b) = (if b then ''true'' else ''false'')"
| "toString rt (JNum n) = numToString rt n"
| "toString rt (JStr s) = s"

text \<open>\<open>a ?? d\<close>: the default replaces \<open>undefined\<close> and \<open>null\<close> only.\<close>

definition coalesce :: "jsval \<Rightarrow> jsval \<Rightarrow> jsval" where
  "coalesce a d = (if a = JUndefined \<or> a = JNull then d else a)"

text \<open>\<open>n + v\<close> with a number on the left: concatenation when \<open>v\<close> is a string.\<close>

fun js_plus :: "runtime \<Rightarrow> jsnum \<Rightarrow> jsval \<Rightarrow> jsval" where
  "js_plus rt n (JStr s) = JStr (numToString rt n @ s)"
| "js_plus rt n v = JNum (num_add n (toNumber rt v))"

text \<open>\<open>a * b\<close> converts both operands to numbers.\<close>

definition js_times :: "runtime \<Rightarrow> jsval \<Rightarrow> jsval \<Rightarrow> jsnum" where
  "js_times rt a b = num_mul (toNumber rt a) (toNumber rt b)"

text \<open>\<open>v > n\<close> with a number on the right.\<close>

definition js_gt :: "runtime \<Rightarrow> jsval \<Rightarrow> jsnum \<Rightarrow> bool" where
  "js_gt rt v n = num_lt n (toNumber rt v)"

subsection \<open>Strings\<close>

text \<open>\<open>s.split(c)\<close> for a one-character separator.\<close>

fun split_from :: "char \<Rightarrow> string \<Rightarrow> string \<Rightarrow> string list" where
  "split_from c cur [] = [cur]"
| "split_from c cur (x # xs) =
     (if x = c then cur # split_from c [] xs else split_from c (cur @ [x]) xs)"

definition split :: "char \<Rightarrow> string \<Rightarrow> string list" where
  "split c s = split_from c [] s"

text \<open>\<open>s.replace(/c/g, r)\<close> for a one-character pattern.\<close>

fun replace :: "char \<Rightarrow> string \<Rightarrow> string \<Rightarrow> string" where
  "replace c r [] = []"
| "replace c r (x # xs) = (if x = c then r @ replace c r xs else x # replace c r xs)"

text \<open>
  A method call on a property value: only strings have \<open>split\<close> and
  \<open>replace\<close>; on a number or a boolean the method is \<open>undefined\<close> and the call
  throws a \<open>TypeError\<close>, as does the property access on \<open>undefined\<close> or \<open>null\<close>.
\<close>

fun js_split :: "jsval \<Rightarrow> char \<Rightarrow> error + string list" where
  "js_split (JStr s) c = Inr (split c s)"
| "js_split _ c = Inl TypeError"

fun js_replace :: "jsval \<Rightarrow> char \<Rightarrow> string \<Rightarrow> error + jsval" where
  "js_replace (JStr s) c r = Inr (JStr (replace c r s))"
| "js_replace _ c r = Inl TypeError"

section \<open>Data model\<close>

type_synonym LayerProperties = "string \<rightharpoonup> jsval"

text \<open>\<open>properties.k\<close>: a missing key reads as \<open>undefined\<close>.\<close>

definition getProp :: "LayerProperties \<Rightarrow> string \<Rightarrow> jsval" where
  "getProp properties k = (case properties k of None \<Rightarrow> JUndefined | Some v \<Rightarrow> v)"

record LayerBounds =
  bounds_x :: jsnum
  bounds_y :: jsnum
  bounds_width :: jsnum
  bounds_height :: jsnum
  bounds_rotation :: jsnum
  bounds_scaleX :: jsnum
  bounds_scaleY :: jsnum

record ValidationError =
  err_property :: string
  err_message :: string

record LayerPropertySchema =
  schema_key :: string
  schema_label :: string
  schema_type :: string
  schema_default :: jsval
  schema_group :: string
  schema_min :: "jsnum option"
  schema_max :: "jsnum option"
  schema_step :: "jsnum option"
  schema_options :: "(string \<times> string) list option"

record BuiltInFont =
  font_family :: string
  font_weights :: "nat list"
  font_category :: string

section \<open>Font registry\<close>

definition BUILT_IN_FONTS :: "BuiltInFont list" where
  "BUILT_IN_FONTS =
    [\<lparr>font_family = ''Inter'', font_weights = [400, 700], font_category = ''sans-serif''\<rparr>,
     \<lparr>font_family = ''JetBrains Mono'', font_weights = [400], font_category = ''monospace''\<rparr>,
     \<lparr>font_family = ''Georgia'', font_weights = [400, 700], font_category = ''serif''\<rparr>,
     \<lparr>font_family = ''Arial'', font_weights = [400, 700], font_category = ''sans-serif''\<rparr>,
     \<lparr>font_family = ''Helvetica'', font_weights = [400, 700], font_category = ''sans-serif''\<rparr>,
     \<lparr>font_family = ''Times New Roman'', font_weights = [400, 700], font_category = ''serif''\<rparr>,
     \<lparr>font_family = ''Courier New'', font_weights = [400, 700], font_category = ''monospace''\<rparr>,
     \<lparr>font_family = ''Verdana'', font_weights = [400, 700], font_category = ''sans-serif''\<rparr>]"

definition FONT_FALLBACKS :: \<open>(string \<times> string) list\<close> where
  \<open>FONT_FALLBACKS =
    [(''sans-serif'', ''Inter, -apple-system, BlinkMacSystemFont, \'Segoe UI\', sans-serif''),
     (''monospace'', ''\'JetBrains Mono\', \'SF Mono\', \'Fira Code\', monospace''),
     (''serif'', ''Georgia, \'Times New Roman\', serif''),
     (''display'', ''Inter, -apple-system, sans-serif'')]\<close>

definition resolveFontStack :: \<open>runtime \<Rightarrow> jsval \<Rightarrow> string\<close> where
  \<open>resolveFontStack rt family =
     (case find (\<lambda>f. JStr (font_family f) = family) BUILT_IN_FONTS of
        None \<Rightarrow> CHR 0x27 # toString rt family @ ''\', sans-serif''
      | Some font \<Rightarrow>
          CHR 0x27 # toString rt family @ ''\', '' @
          (case map_of FONT_FALLBACKS (font_category font) of
             None \<Rightarrow> ''sans-serif'' | Some fb \<Rightarrow> fb))\<close>

section \<open>Property schema and defaults\<close>

definition TEXT_PROPERTIES :: "LayerPropertySchema list" where
  "TEXT_PROPERTIES =
    [\<lparr>schema_key = ''text'', schema_label = ''Text'', schema_type = ''string'',
      schema_default = JStr ''Hello World'', schema_group = ''content'',
      schema_min = None, schema_max = None, schema_step = None, schema_options = None\<rparr>,
     \<lparr>schema_key = ''fontFamily'', schema_label = ''Font Family'', schema_type = ''select'',
      schema_default = JStr ''Inter'', schema_group = ''font'',
      schema_min = None, schema_max = None, schema_step = None,
      schema_options = Some (map (\<lambda>f. (font_family f, font_family f)) BUILT_IN_FONTS)\<rparr>,
     \<lparr>schema_key = ''fontSize'', schema_label = ''Font Size'', schema_type = ''number'',
      schema_default = JNum (Fin 48), schema_group = ''font'',
      schema_min = Some (Fin 1), schema_max = Some (Fin 1000), schema_step = Some (Fin 1),
      schema_options = None\<rparr>,
     \<lparr>schema_key = ''fontWeight'', schema_label = ''Font Weight'', schema_type = ''select'',
      schema_default = JStr ''400'', schema_group = ''font'',
      schema_min = None, schema_max = None, schema_step = None,
      schema_options = Some [(''400'', ''Regular''), (''700'', ''Bold'')]\<rparr>,
     \<lparr>schema_key = ''fontStyle'', schema_label = ''Font Style'', schema_type = ''select'',
      schema_default = JStr ''normal'', schema_group = ''font'',
      schema_min = None, schema_max = None, schema_step = None,
      schema_options = Some [(''normal'', ''Normal''), (''italic'', ''Italic'')]\<rparr>,
     \<lparr>schema_key = ''color'', schema_label = ''Color'', schema_type = ''color'',
      schema_default = JStr ''#ffffff'', schema_group = ''style'',
      schema_min = None, schema_max = None, schema_step = None, schema_options = None\<rparr>,
     \<lparr>schema_key = ''align'', schema_label = ''Alignment'', schema_type = ''select'',
      schema_default = JStr ''left'', schema_group = ''layout'',
      schema_min = None, schema_max = None, schema_step = None,
      schema_options = Some [(''left'', ''Left''), (''center'', ''Center''), (''right'', ''Right'')]\<rparr>,
     \<lparr>schema_key = ''baseline'', schema_label = ''Baseline'', schema_type = ''select'',
      schema_default = JStr ''top'', schema_group = ''layout'',
      schema_min = None, schema_max = None, schema_step = None,
      schema_options = Some [(''top'', ''Top''), (''middle'', ''Middle''),
        (''alphabetic'', ''Alphabetic''), (''bottom'', ''Bottom'')]\<rparr>,
     \<lparr>schema_key = ''lineHeight'', schema_label = ''Line Height'', schema_type = ''number'',
      schema_default = JNum (num_lit 1.2), schema_group = ''layout'',
      schema_min = Some (num_lit 0.5), schema_max = Some (Fin 5), schema_step = Some (num_lit 0.1),
      schema_options = None\<rparr>,
     \<lparr>schema_key = ''strokeEnabled'', schema_label = ''Stroke Enabled'', schema_type = ''boolean'',
      schema_default = JBool False, schema_group = ''stroke'',
      schema_min = None, schema_max = None, schema_step = None, schema_options = None\<rparr>,
     \<lparr>schema_key = ''strokeColor'', schema_label = ''Stroke Color'', schema_type = ''color'',
      schema_default = JStr ''#000000'', schema_group = ''stroke'',
      schema_min = None, schema_max = None, schema_step = None, schema_options = None\<rparr>,
     \<lparr>schema_key = ''strokeWidth'', schema_label = ''Stroke Width'', schema_type = ''number'',
      schema_default = JNum (Fin 2), schema_group = ''stroke'',
      schema_min = Some (Fin 0), schema_max = Some (Fin 50), schema_step = Some (num_lit 0.5),
      schema_options = None\<rparr>,
     \<lparr>schema_key = ''shadowEnabled'', schema_label = ''Shadow Enabled'', schema_type = ''boolean'',
      schema_default = JBool False, schema_group = ''shadow'',
      schema_min = None, schema_max = None, schema_step = None, schema_options = None\<rparr>,
     \<lparr>schema_key = ''shadowColor'', schema_label = ''Shadow Color'', schema_type = ''color'',
      schema_default = JStr ''rgba(0,0,0,0.5)'', schema_group = ''shadow'',
      schema_min = None, schema_max = None, schema_step = None, schema_options = None\<rparr>,
     \<lparr>schema_key = ''shadowBlur'', schema_label = ''Shadow Blur'', schema_type = ''number'',
      schema_default = JNum (Fin 4), schema_group = ''shadow'',
      schema_min = Some (Fin 0), schema_max = Some (Fin 100), schema_step = Some (Fin 1),
      schema_options = None\<rparr>,
     \<lparr>schema_key = ''shadowOffsetX'', schema_label = ''Shadow Offset X'', schema_type = ''number'',
      schema_default = JNum (Fin 2), schema_group = ''shadow'',
      schema_min = Some (Fin (- 100)), schema_max = Some (Fin 100), schema_step = Some (Fin 1),
      schema_options = None\<rparr>,
     \<lparr>schema_key = ''shadowOffsetY'', schema_label = ''Shadow Offset Y'', schema_type = ''number'',
      schema_default = JNum (Fin 2), schema_group = ''shadow'',
      schema_min = Some (Fin (- 100)), schema_max = Some (Fin 100), schema_step = Some (Fin 1),
      schema_options = None\<rparr>]"

text \<open>
  \<open>createDefault\<close> allocates a new object and stores every descriptor's default in it.
  Objects live in a store and are named by references, so that two results of
  \<open>createDefault\<close> can be told apart and an update of one can be observed on the other.
\<close>

type_synonym ref = nat
type_synonym heap = "LayerProperties list"

definition alloc :: "heap \<Rightarrow> ref \<times> heap" where
  "alloc h = (length h, h @ [Map.empty])"

definition setProp :: "heap \<Rightarrow> ref \<Rightarrow> string \<Rightarrow> jsval \<Rightarrow> heap" where
  "setProp h r k v = h[r := (h ! r)(k \<mapsto> v)]"

definition createDefault :: "heap \<Rightarrow> ref \<times> heap" where
  "createDefault h =
     (let (props, h) = alloc h;
          h = fold (\<lambda>schema h. setProp h props (schema_key schema) (schema_default schema))
                TEXT_PROPERTIES h
      in (props, h))"

section \<open>Validator\<close>

definition validate :: "LayerProperties \<Rightarrow> ValidationError list option" where
  \<open>validate properties =
     (let errors = [];
          errors = (if typeof (getProp properties ''text'') \<noteq> ''string''
                    then errors @ [\<lparr>err_property = ''text'',
                                    err_message = ''Text must be a string''\<rparr>]
                    else errors);
          fontSize = getProp properties ''fontSize'';
          errors = (if typeof fontSize \<noteq> ''number'' \<or>
                       (case fontSize of
                          JNum n \<Rightarrow> num_lt n (Fin 1) \<or> num_lt (Fin 1000) n
                        | _ \<Rightarrow> False)
                    then errors @ [\<lparr>err_property = ''fontSize'',
                                    err_message = ''Font size must be a number between 1 and 1000''\<rparr>]
                    else errors);
          fontWeight = getProp properties ''fontWeight'';
          errors = (if fontWeight \<noteq> JStr ''400'' \<and> fontWeight \<noteq> JStr ''700''
                    then errors @ [\<lparr>err_property = ''fontWeight'',
                                    err_message = ''Font weight must be \'400\' or \'700'' @ [CHR 0x27]\<rparr>]
                    else errors)
      in if length errors > 0 then Some errors else None)\<close>

section \<open>Raster renderer\<close>

text \<open>
  The drawing surface is a handle owned by the host. The renderer only assigns
  attributes and calls methods on it, none of which throws; the surface is modelled by the
  sequence of the operations performed on it, in order.
\<close>

datatype canvas_op =
    Save
  | Restore
  | SetFont string
  | SetTextAlign jsval
  | SetTextBaseline jsval
  | SetShadowColor jsval
  | SetShadowBlur jsval
  | SetShadowOffsetX jsval
  | SetShadowOffsetY jsval
  | SetStrokeStyle jsval
  | SetLineWidth jsval
  | SetLineJoin string
  | StrokeText string jsnum jsnum
  | SetFillStyle jsval
  | FillText string jsnum jsnum

type_synonym canvas = "canvas_op list"

text \<open>The \<open>for\<close> loop over the lines, from index \<open>i\<close> on.\<close>

function drawLines ::
  "runtime \<Rightarrow> jsval \<Rightarrow> jsval \<Rightarrow> jsval \<Rightarrow> jsval \<Rightarrow> jsnum \<Rightarrow> LayerBounds \<Rightarrow> jsnum \<Rightarrow>
   string list \<Rightarrow> nat \<Rightarrow> canvas \<Rightarrow> canvas" where
  "drawLines rt strokeEnabled strokeWidth strokeColor color x bounds lineSpacing lines i ctx =
     (if i < length lines then
        let line = lines ! i;
            y = num_add (bounds_y bounds) (num_mul (Fin (of_nat i)) lineSpacing);
            ctx = (if toBoolean strokeEnabled \<and> js_gt rt strokeWidth (Fin 0)
                   then ctx @ [SetStrokeStyle strokeColor, SetLineWidth strokeWidth,
                               SetLineJoin ''round'', StrokeText line x y]
                   else ctx);
            ctx = ctx @ [SetFillStyle color, FillText line x y]
        in drawLines rt strokeEnabled strokeWidth strokeColor color x bounds lineSpacing
             lines (i + 1) ctx
      else ctx)"
  by pat_completeness auto
termination
  by (relation "measure (\<lambda>(rt, se, sw, sc, c, x, b, ls, lines, i, ctx). length lines - i)") auto

declare drawLines.simps [simp del]

definition renderText ::
  "runtime \<Rightarrow> LayerProperties \<Rightarrow> canvas \<Rightarrow> LayerBounds \<Rightarrow> canvas \<times> (error + unit)" where
  "renderText rt properties ctx bounds =
     (let text = coalesce (getProp properties ''text'') (JStr []) in
      if \<not> toBoolean text then (ctx, Inr ()) else
      let fontSize = coalesce (getProp properties ''fontSize'') (JNum (Fin 48));
          fontFamily = coalesce (getProp properties ''fontFamily'') (JStr ''Inter'');
          fontWeight = coalesce (getProp properties ''fontWeight'') (JStr ''400'');
          fontStyle = coalesce (getProp properties ''fontStyle'') (JStr ''normal'');
          color = coalesce (getProp properties ''color'') (JStr ''#ffffff'');
          align = coalesce (getProp properties ''align'') (JStr ''left'');
          baseline = coalesce (getProp properties ''baseline'') (JStr ''top'');
          lineHeight = coalesce (getProp properties ''lineHeight'') (JNum (num_lit 1.2));
          strokeEnabled = coalesce (getProp properties ''strokeEnabled'') (JBool False);
          strokeColor = coalesce (getProp properties ''strokeColor'') (JStr ''#000000'');
          strokeWidth = coalesce (getProp properties ''strokeWidth'') (JNum (Fin 2));
          shadowEnabled = coalesce (getProp properties ''shadowEnabled'') (JBool False);
          shadowColor = coalesce (getProp properties ''shadowColor'') (JStr ''rgba(0,0,0,0.5)'');
          shadowBlur = coalesce (getProp properties ''shadowBlur'') (JNum (Fin 4));
          shadowOffsetX = coalesce (getProp properties ''shadowOffsetX'') (JNum (Fin 2));
          shadowOffsetY = coalesce (getProp properties ''shadowOffsetY'') (JNum (Fin 2));
          ctx = ctx @ [Save];
          fontStack = resolveFontStack rt fontFamily;
          ctx = ctx @ [SetFont (toString rt fontStyle @ '' '' @ toString rt fontWeight @ '' '' @
                                toString rt fontSize @ ''px '' @ fontStack)];
          ctx = ctx @ [SetTextAlign align];
          ctx = ctx @ [SetTextBaseline baseline];
          x = bounds_x bounds;
          x = (if align = JStr ''center''
               then num_add (bounds_x bounds) (num_div (bounds_width bounds) (Fin 2))
               else if align = JStr ''right''
               then num_add (bounds_x bounds) (bounds_width bounds)
               else x);
          ctx = (if toBoolean shadowEnabled
                 then ctx @ [SetShadowColor shadowColor, SetShadowBlur shadowBlur,
                             SetShadowOffsetX shadowOffsetX, SetShadowOffsetY shadowOffsetY]
                 else ctx)
      in case js_split text CHR ''\<newline>'' of
           Inl e \<Rightarrow> (ctx, Inl e)
         | Inr lines \<Rightarrow>
             let lineSpacing = js_times rt fontSize lineHeight;
                 ctx = drawLines rt strokeEnabled strokeWidth strokeColor color x bounds
                         lineSpacing lines 0 ctx;
                 ctx = ctx @ [Restore]
             in (ctx, Inr ()))"

section \<open>Vector renderer\<close>

definition renderSVG :: "runtime \<Rightarrow> LayerProperties \<Rightarrow> LayerBounds \<Rightarrow> error + string" where
  \<open>renderSVG rt properties bounds =
     (let text = coalesce (getProp properties ''text'') (JStr []);
          fontSize = coalesce (getProp properties ''fontSize'') (JNum (Fin 48));
          fontFamily = coalesce (getProp properties ''fontFamily'') (JStr ''Inter'');
          fontWeight = coalesce (getProp properties ''fontWeight'') (JStr ''400'');
          fontStyle = coalesce (getProp properties ''fontStyle'') (JStr ''normal'');
          color = coalesce (getProp properties ''color'') (JStr ''#ffffff'');
          align = coalesce (getProp properties ''align'') (JStr ''left'');
          textAnchor = ''start'';
          x = bounds_x bounds;
          (textAnchor, x) =
            (if align = JStr ''center''
             then (''middle'', num_add (bounds_x bounds) (num_div (bounds_width bounds) (Fin 2)))
             else if align = JStr ''right''
             then (''end'', num_add (bounds_x bounds) (bounds_width bounds))
             else (textAnchor, x))
      in case js_replace text CHR ''&'' ''&amp;'' of
           Inl e \<Rightarrow> Inl e
         | Inr t1 \<Rightarrow>
       (case js_replace t1 CHR ''<'' ''&lt;'' of
           Inl e \<Rightarrow> Inl e
         | Inr t2 \<Rightarrow>
       (case js_replace t2 CHR ''>'' ''&gt;'' of
           Inl e \<Rightarrow> Inl e
         | Inr escaped \<Rightarrow>
             Inr (''<text x="'' @ numToString rt x @
                  ''" y="'' @ toString rt (js_plus rt (bounds_y bounds) fontSize) @
                  ''" font-family="'' @ toString rt fontFamily @
                  ''" font-size="'' @ toString rt fontSize @
                  ''" font-weight="'' @ toString rt fontWeight @
                  ''" font-style="'' @ toString rt fontStyle @
                  ''" fill="'' @ toString rt color @
                  ''" text-anchor="'' @ textAnchor @
                  ''">'' @ toString rt escaped @ ''</text>''))))\<close>

section \<open>A runtime for evaluation\<close>

text \<open>
  An instance of the two conversions, for evaluating the renderers on concrete inputs.
  It prints integers in decimal (other finite numbers with up to twenty fractional
  digits) and reads strings of decimal digits with an optional minus sign, rounded to a
  double; every other string reads as \<open>NaN\<close>.
\<close>

definition digit :: "nat \<Rightarrow> char" where
  "digit d = ''0123456789'' ! d"

fun digits :: "nat \<Rightarrow> string" where
  "digits n = (if n < 10 then [digit n] else digits (n div 10) @ [digit (n mod 10)])"

declare digits.simps [simp del]

fun frac_digits :: "nat \<Rightarrow> real \<Rightarrow> string" where
  "frac_digits 0 r = []"
| "frac_digits (Suc k) r =
     (if r = 0 then []
      else digit (nat \<lfloor>r * 10\<rfloor>) # frac_digits k (r * 10 - of_int \<lfloor>r * 10\<rfloor>))"

definition show_real :: "real \<Rightarrow> string" where
  "show_real r =
     (let a = \<bar>r\<bar>; n = nat \<lfloor>a\<rfloor>; f = a - of_nat n
      in (if r < 0 then ''-'' else []) @ digits n @
         (if f = 0 then [] else ''.'' @ frac_digits 20 f))"

fun show_num :: "jsnum \<Rightarrow> string" where
  "show_num (Fin r) = show_real r"
| "show_num NaN = ''NaN''"
| "show_num PosInf = ''Infinity''"
| "show_num NegInf = ''-Infinity''"

definition read_nat :: "string \<Rightarrow> nat" where
  "read_nat s = foldl (\<lambda>n c. 10 * n + (of_char c - 48)) 0 s"

definition is_digits :: "string \<Rightarrow> bool" where
  "is_digits s = (s \<noteq> [] \<and> list_all (\<lambda>c. (48::nat) \<le> of_char c \<and> of_char c \<le> (57::nat)) s)"

definition read_num :: "string \<Rightarrow> jsnum" where
  "read_num s =
     (if s = [] then Fin 0
      else if is_digits s then round_double (of_nat (read_nat s))
      else if hd s = CHR ''-'' \<and> is_digits (tl s) then round_double (- of_nat (read_nat (tl s)))
      else NaN)"

definition decimal_runtime :: runtime where
  "decimal_runtime = \<lparr>numToString = show_num, stringToNumber = read_num\<rparr>"

section \<open>Observations on results\<close>

text \<open>The draw calls among the operations on the surface, and the fill and stroke calls among them.\<close>

fun isDraw :: "canvas_op \<Rightarrow> bool" where
  "isDraw (StrokeText _ _ _) = True"
| "isDraw (FillText _ _ _) = True"
| "isDraw _ = False"


fun isStroke :: "canvas_op \<Rightarrow> bool" where
  "isStroke (StrokeText _ _ _) = True"
| "isStroke _ = False"

text \<open>The x-coordinate of a draw call.\<close>

fun drawX :: "canvas_op \<Rightarrow> jsnum option" where
  "drawX (StrokeText _ x _) = Some x"
| "drawX (FillText _ x _) = Some x"
| "drawX _ = None"


section \<open>The wording of resolution, alignment and escaping\<close>

text \<open>
  Resolving a key against a fallback: the fallback when the key is absent or holds
  \<open>undefined\<close> or \<open>null\<close>, and the stored value otherwise, whatever its type.
\<close>

definition spec_resolve :: "LayerProperties \<Rightarrow> string \<Rightarrow> jsval \<Rightarrow> jsval" where
  "spec_resolve p k fallback =
     (case p k of
        None \<Rightarrow> fallback
      | Some v \<Rightarrow> if v = JUndefined \<or> v = JNull then fallback else v)"

text \<open>
  The anchor of the specification: \<open>bounds.x\<close> for left, \<open>bounds.x + bounds.width/2\<close>
  for center, \<open>bounds.x + bounds.width\<close> for right, and the left anchor for any other
  value.
\<close>

definition spec_anchorX :: "jsval \<Rightarrow> LayerBounds \<Rightarrow> jsnum" where
  "spec_anchorX align bounds =
     (if align = JStr ''center''
      then num_add (bounds_x bounds) (num_div (bounds_width bounds) (Fin 2))
      else if align = JStr ''right''
      then num_add (bounds_x bounds) (bounds_width bounds)
      else bounds_x bounds)"

text \<open>The anchor keyword of the specification: left to start, center to middle, right to end.\<close>

definition spec_textAnchor :: "jsval \<Rightarrow> string" where
  "spec_textAnchor align =
     (if align = JStr ''center'' then ''middle''
      else if align = JStr ''right'' then ''end''
      else ''start'')"

text \<open>
  Escaping as the specification means it: one pass over the text in which each of the
  three characters is replaced by its entity and every other character is kept.
\<close>

definition spec_escapeChar :: "char \<Rightarrow> string" where
  "spec_escapeChar x =
     (if x = CHR ''&'' then ''&amp;''
      else if x = CHR ''<'' then ''&lt;''
      else if x = CHR ''>'' then ''&gt;''
      else [x])"

definition spec_escape :: "string \<Rightarrow> string" where
  "spec_escape t = concat (map spec_escapeChar t)"

section \<open>Inputs of the test suite\<close>

definition BOUNDS :: LayerBounds where
  "BOUNDS = \<lparr>bounds_x = Fin 10, bounds_y = Fin 20, bounds_width = Fin 400,
             bounds_height = Fin 100, bounds_rotation = Fin 0,
             bounds_scaleX = Fin 1, bounds_scaleY = Fin 1\<rparr>"

text \<open>The properties that \<open>createDefault\<close> builds, read from an empty store.\<close>

definition DEFAULTS :: LayerProperties where
  "DEFAULTS = (let (props, h) = createDefault [] in h ! props)"

section \<open>Lemmas on the helper functions\<close>

text \<open>The facts that evaluate the rounding of a concrete number.\<close>

lemmas double_eval =
  num_lit_def round_double_def binade_def pow2_def rne_def bit_length.simps Let_def





lemma replace_append: "replace c r (xs @ ys) = replace c r xs @ replace c r ys"
  by (induction xs) auto

lemma replace_chain:
  "replace CHR ''>'' ''&gt;'' (replace CHR ''<'' ''&lt;'' (replace CHR ''&'' ''&amp;'' t)) =
   spec_escape t"
  by (induction t) (auto simp: spec_escape_def spec_escapeChar_def replace_append)

lemma fold_setProp:
  "r < length h \<Longrightarrow>
   fold (\<lambda>schema h. setProp h r (schema_key schema) (schema_default schema)) xs h =
   h[r := fold (\<lambda>schema m. m(schema_key schema \<mapsto> schema_default schema)) xs (h ! r)]"
  by (induction xs arbitrary: h) (simp_all add: setProp_def)

lemma createDefault_eq:
  "createDefault h =
     (length h, h @ [fold (\<lambda>schema m. m(schema_key schema \<mapsto> schema_default schema))
                       TEXT_PROPERTIES Map.empty])"
  by (simp add: createDefault_def alloc_def fold_setProp)

lemma fold_defaults_other:
  "k \<notin> schema_key ` set xs \<Longrightarrow>
   fold (\<lambda>schema m. m(schema_key schema \<mapsto> schema_default schema)) xs m k = m k"
  by (induction xs arbitrary: m) auto

lemma fold_defaults_dom:
  "dom (fold (\<lambda>schema m. m(schema_key schema \<mapsto> schema_default schema)) xs m) =
   dom m \<union> schema_key ` set xs"
  by (induction xs arbitrary: m) auto

lemma fold_defaults_lookup:
  "distinct (map schema_key xs) \<Longrightarrow> s \<in> set xs \<Longrightarrow>
   fold (\<lambda>schema m. m(schema_key schema \<mapsto> schema_default schema)) xs m (schema_key s) =
   Some (schema_default s)"
proof (induction xs arbitrary: m)
  case Nil
  then show ?case by simp
next
  case (Cons x xs)
  show ?case
  proof (cases "s = x")
    case True
    have "schema_key x \<notin> schema_key ` set xs"
      using Cons.prems(1) by simp
    from fold_defaults_other [OF this, of "m(schema_key x \<mapsto> schema_default x)"]
    show ?thesis
      unfolding True by (simp del: fun_upd_apply add: fun_upd_same)
  next
    case False
    then show ?thesis
      using Cons by simp
  qed
qed

lemma TEXT_PROPERTIES_distinct: "distinct (map schema_key TEXT_PROPERTIES)"
  by (simp add: TEXT_PROPERTIES_def)

lemma DEFAULTS_eq:
  "DEFAULTS = fold (\<lambda>schema m. m(schema_key schema \<mapsto> schema_default schema))
                TEXT_PROPERTIES Map.empty"
  by (simp add: DEFAULTS_def createDefault_eq)

section \<open>Lemmas on the renderers\<close>

lemma drawLines_eq:
  "drawLines rt se sw sc c x b ls lines i ctx =
     ctx @ concat (map (\<lambda>j.
        (if toBoolean se \<and> js_gt rt sw (Fin 0)
         then [SetStrokeStyle sc, SetLineWidth sw, SetLineJoin ''round'',
               StrokeText (lines ! j) x (num_add (bounds_y b) (num_mul (Fin (of_nat j)) ls))]
         else []) @
        [SetFillStyle c,
         FillText (lines ! j) x (num_add (bounds_y b) (num_mul (Fin (of_nat j)) ls))])
       [i..<length lines])"
proof (induction rt se sw sc c x b ls lines i ctx rule: drawLines.induct)
  case (1 rt se sw sc c x b ls lines i ctx)
  show ?case
  proof (cases "i < length lines")
    case True
    then have up: "[i..<length lines] = i # [Suc i..<length lines]"
      by (simp add: upt_conv_Cons)
    show ?thesis
      using True "1.IH" [OF True refl refl refl refl]
      by (subst drawLines.simps) (simp add: up Let_def)
  next
    case False
    then show ?thesis
      by (subst drawLines.simps) simp
  qed
qed

lemma renderText_falsy:
  "\<not> toBoolean (coalesce (getProp p ''text'') (JStr [])) \<Longrightarrow>
   renderText rt p ctx b = (ctx, Inr ())"
  by (simp add: renderText_def)

lemma renderText_string:
  fixes rt p b t
  defines "fontSize \<equiv> coalesce (getProp p ''fontSize'') (JNum (Fin 48))"
    and "fontFamily \<equiv> coalesce (getProp p ''fontFamily'') (JStr ''Inter'')"
    and "fontWeight \<equiv> coalesce (getProp p ''fontWeight'') (JStr ''400'')"
    and "fontStyle \<equiv> coalesce (getProp p ''fontStyle'') (JStr ''normal'')"
    and "color \<equiv> coalesce (getProp p ''color'') (JStr ''#ffffff'')"
    and "align \<equiv> coalesce (getProp p ''align'') (JStr ''left'')"
    and "baseline \<equiv> coalesce (getProp p ''baseline'') (JStr ''top'')"
    and "lineHeight \<equiv> coalesce (getProp p ''lineHeight'') (JNum (num_lit 1.2))"
    and "strokeEnabled \<equiv> coalesce (getProp p ''strokeEnabled'') (JBool False)"
    and "strokeColor \<equiv> coalesce (getProp p ''strokeColor'') (JStr ''#000000'')"
    and "strokeWidth \<equiv> coalesce (getProp p ''strokeWidth'') (JNum (Fin 2))"
    and "shadowEnabled \<equiv> coalesce (getProp p ''shadowEnabled'') (JBool False)"
    and "shadowColor \<equiv> coalesce (getProp p ''shadowColor'') (JStr ''rgba(0,0,0,0.5)'')"
    and "shadowBlur \<equiv> coalesce (getProp p ''shadowBlur'') (JNum (Fin 4))"
    and "shadowOffsetX \<equiv> coalesce (getProp p ''shadowOffsetX'') (JNum (Fin 2))"
    and "shadowOffsetY \<equiv> coalesce (getProp p ''shadowOffsetY'') (JNum (Fin 2))"
    and "lines \<equiv> split CHR ''\<newline>'' t"
  assumes tx: "coalesce (getProp p ''text'') (JStr []) = JStr t" and ne: "t \<noteq> []"
  shows "renderText rt p ctx b =
    (ctx @ [Save,
            SetFont (toString rt fontStyle @ '' '' @ toString rt fontWeight @ '' '' @
                     toString rt fontSize @ ''px '' @ resolveFontStack rt fontFamily),
            SetTextAlign align, SetTextBaseline baseline] @
     (if toBoolean shadowEnabled
      then [SetShadowColor shadowColor, SetShadowBlur shadowBlur,
            SetShadowOffsetX shadowOffsetX, SetShadowOffsetY shadowOffsetY]
      else []) @
     concat (map (\<lambda>i.
        (if toBoolean strokeEnabled \<and> js_gt rt strokeWidth (Fin 0)
         then [SetStrokeStyle strokeColor, SetLineWidth strokeWidth, SetLineJoin ''round'',
               StrokeText (lines ! i) (spec_anchorX align b)
                 (num_add (bounds_y b)
                    (num_mul (Fin (of_nat i)) (js_times rt fontSize lineHeight)))]
         else []) @
        [SetFillStyle color,
         FillText (lines ! i) (spec_anchorX align b)
           (num_add (bounds_y b)
              (num_mul (Fin (of_nat i)) (js_times rt fontSize lineHeight)))])
       [0..<length lines]) @
     [Restore], Inr ())"
  unfolding renderText_def Let_def tx assms(1-17) spec_anchorX_def drawLines_eq
  using ne
  by simp

lemma renderText_throws:
  assumes "toBoolean (coalesce (getProp p ''text'') (JStr []))"
    and "typeof (coalesce (getProp p ''text'') (JStr [])) \<noteq> ''string''"
  shows "\<exists>ops. renderText rt p ctx b = (ctx @ Save # ops, Inl TypeError) \<and>
           Save \<notin> set ops \<and> Restore \<notin> set ops \<and> \<not> list_ex isDraw ops"
proof (cases "coalesce (getProp p ''text'') (JStr [])")
  case (JStr s)
  with assms show ?thesis by simp
next
  case JUndefined
  with assms show ?thesis by simp
next
  case JNull
  with assms show ?thesis by simp
next
  case (JBool x)
  show ?thesis
    unfolding renderText_def Let_def JBool
    using assms(1) [unfolded JBool] by simp
next
  case (JNum x)
  show ?thesis
    unfolding renderText_def Let_def JNum
    using assms(1) [unfolded JNum] by simp
qed

lemma renderText_appends:
  "renderText rt p ctx b = (ctx @ fst (renderText rt p [] b), snd (renderText rt p [] b))"
  unfolding renderText_def Let_def drawLines_eq
  by (cases "coalesce (getProp p ''text'') (JStr [])") simp_all

lemma renderSVG_string:
  fixes rt p b t
  defines "fontSize \<equiv> coalesce (getProp p ''fontSize'') (JNum (Fin 48))"
    and "fontFamily \<equiv> coalesce (getProp p ''fontFamily'') (JStr ''Inter'')"
    and "fontWeight \<equiv> coalesce (getProp p ''fontWeight'') (JStr ''400'')"
    and "fontStyle \<equiv> coalesce (getProp p ''fontStyle'') (JStr ''normal'')"
    and "color \<equiv> coalesce (getProp p ''color'') (JStr ''#ffffff'')"
    and "align \<equiv> coalesce (getProp p ''align'') (JStr ''left'')"
  assumes tx: "coalesce (getProp p ''text'') (JStr []) = JStr t"
  shows \<open>renderSVG rt p b =
    Inr (''<text x="'' @ numToString rt (spec_anchorX align b) @
         ''" y="'' @ toString rt (js_plus rt (bounds_y b) fontSize) @
         ''" font-family="'' @ toString rt fontFamily @
         ''" font-size="'' @ toString rt fontSize @
         ''" font-weight="'' @ toString rt fontWeight @
         ''" font-style="'' @ toString rt fontStyle @
         ''" fill="'' @ toString rt color @
         ''" text-anchor="'' @ spec_textAnchor align @
         ''">'' @ spec_escape t @ ''</text>'')\<close>
  unfolding renderSVG_def Let_def tx assms(1-6) spec_anchorX_def spec_textAnchor_def
  by (simp add: replace_chain)

lemma renderSVG_throws:
  assumes "typeof (coalesce (getProp p ''text'') (JStr [])) \<noteq> ''string''"
  shows "renderSVG rt p b = Inl TypeError"
proof (cases "coalesce (getProp p ''text'') (JStr [])")
  case (JStr s)
  with assms show ?thesis by simp
next
  case JUndefined
  then show ?thesis unfolding renderSVG_def Let_def by (simp split: prod.splits)
next
  case JNull
  then show ?thesis unfolding renderSVG_def Let_def by (simp split: prod.splits)
next
  case (JBool x)
  then show ?thesis unfolding renderSVG_def Let_def by (simp split: prod.splits)
next
  case (JNum x)
  then show ?thesis unfolding renderSVG_def Let_def by (simp split: prod.splits)
qed

lemma getProp_upd: "getProp (p(k \<mapsto> v)) k' = (if k' = k then v else getProp p k')"
  by (simp add: getProp_def)

lemma getProp_DEFAULTS:
  "getProp DEFAULTS ''text'' = JStr ''Hello World''"
  "getProp DEFAULTS ''fontFamily'' = JStr ''Inter''"
  "getProp DEFAULTS ''fontSize'' = JNum (Fin 48)"
  "getProp DEFAULTS ''fontWeight'' = JStr ''400''"
  "getProp DEFAULTS ''fontStyle'' = JStr ''normal''"
  "getProp DEFAULTS ''color'' = JStr ''#ffffff''"
  "getProp DEFAULTS ''align'' = JStr ''left''"
  "getProp DEFAULTS ''baseline'' = JStr ''top''"
  "getProp DEFAULTS ''lineHeight'' = JNum (num_lit 1.2)"
  "getProp DEFAULTS ''strokeEnabled'' = JBool False"
  "getProp DEFAULTS ''strokeColor'' = JStr ''#000000''"
  "getProp DEFAULTS ''strokeWidth'' = JNum (Fin 2)"
  "getProp DEFAULTS ''shadowEnabled'' = JBool False"
  "getProp DEFAULTS ''shadowColor'' = JStr ''rgba(0,0,0,0.5)''"
  "getProp DEFAULTS ''shadowBlur'' = JNum (Fin 4)"
  "getProp DEFAULTS ''shadowOffsetX'' = JNum (Fin 2)"
  "getProp DEFAULTS ''shadowOffsetY'' = JNum (Fin 2)"
  by (simp_all add: DEFAULTS_eq TEXT_PROPERTIES_def getProp_def)

lemma coalesce_simps:
  "coalesce JUndefined d = d"
  "coalesce JNull d = d"
  "coalesce (JBool x) d = JBool x"
  "coalesce (JNum n) d = JNum n"
  "coalesce (JStr s) d = JStr s"
  by (simp_all add: coalesce_def)

lemma coalesce_nullish_key:
  "coalesce (getProp (p(k \<mapsto> JNull)) k') d = coalesce (getProp (p(k := None)) k') d"
  "coalesce (getProp (p(k \<mapsto> JUndefined)) k') d = coalesce (getProp (p(k := None)) k') d"
  by (simp_all add: coalesce_def getProp_def)

lemma filter_lineOps_draw:
  "filter isDraw (concat (map (\<lambda>i.
        (if c then [SetStrokeStyle sc, SetLineWidth sw, SetLineJoin lj, StrokeText (f i) x (y i)]
         else []) @ [SetFillStyle col, FillText (f i) x (y i)]) is)) =
   concat (map (\<lambda>i. (if c then [StrokeText (f i) x (y i)] else []) @ [FillText (f i) x (y i)]) is)"
  by (induction "is") auto





lemma show_real_examples:
  "show_real 10 = ''10''"
  "show_real 48 = ''48''"
  "show_real 68 = ''68''"
  "show_real 210 = ''210''"
  by (simp_all add: show_real_def digits.simps digit_def)

lemma validate_defaults: "validate DEFAULTS = None"
  by (simp add: validate_def getProp_DEFAULTS)

lemma resolveFontStack_Inter:
  \<open>resolveFontStack rt (JStr ''Inter'') =
     ''\'Inter\', Inter, -apple-system, BlinkMacSystemFont, \'Segoe UI\', sans-serif''\<close>
  by (simp add: resolveFontStack_def BUILT_IN_FONTS_def FONT_FALLBACKS_def)

lemma isStroke_isDraw: "isStroke op \<Longrightarrow> isDraw op"
  by (cases op) auto

lemma coalesce_getProp: "coalesce (getProp p k) d = spec_resolve p k d"
  by (simp add: coalesce_def getProp_def spec_resolve_def split: option.splits)

lemma renderText_throws_trace:
  assumes "toBoolean (coalesce (getProp p ''text'') (JStr []))"
    and "typeof (coalesce (getProp p ''text'') (JStr [])) \<noteq> ''string''"
  shows "renderText rt p ctx b =
    (ctx @ [Save,
            SetFont (toString rt (coalesce (getProp p ''fontStyle'') (JStr ''normal'')) @ '' '' @
                     toString rt (coalesce (getProp p ''fontWeight'') (JStr ''400'')) @ '' '' @
                     toString rt (coalesce (getProp p ''fontSize'') (JNum (Fin 48))) @ ''px '' @
                     resolveFontStack rt (coalesce (getProp p ''fontFamily'') (JStr ''Inter''))),
            SetTextAlign (coalesce (getProp p ''align'') (JStr ''left'')),
            SetTextBaseline (coalesce (getProp p ''baseline'') (JStr ''top''))] @
     (if toBoolean (coalesce (getProp p ''shadowEnabled'') (JBool False))
      then [SetShadowColor (coalesce (getProp p ''shadowColor'') (JStr ''rgba(0,0,0,0.5)'')),
            SetShadowBlur (coalesce (getProp p ''shadowBlur'') (JNum (Fin 4))),
            SetShadowOffsetX (coalesce (getProp p ''shadowOffsetX'') (JNum (Fin 2))),
            SetShadowOffsetY (coalesce (getProp p ''shadowOffsetY'') (JNum (Fin 2)))]
      else []), Inl TypeError)"
proof (cases "coalesce (getProp p ''text'') (JStr [])")
  case (JStr s)
  with assms show ?thesis by simp
next
  case JUndefined
  with assms show ?thesis by simp
next
  case JNull
  with assms show ?thesis by simp
next
  case (JBool x)
  show ?thesis
    unfolding renderText_def Let_def JBool
    using assms(1) [unfolded JBool] by simp
next
  case (JNum x)
  show ?thesis
    unfolding renderText_def Let_def JNum
    using assms(1) [unfolded JNum] by simp
qed



lemma validate_fontSize_range:
  "n \<noteq> NaN \<Longrightarrow>
   (\<not> num_lt n (Fin 1) \<and> \<not> num_lt (Fin 1000) n) = (\<exists>r. n = Fin r \<and> 1 \<le> r \<and> r \<le> 1000)"
  by (cases n) auto

section \<open>Defaults\<close>

text \<open>
  Claim C9. Every call of \<open>createDefault\<close> returns a new object whose keys are exactly
  the keys of the schema descriptors (which are pairwise different), each holding its
  descriptor's default. Two calls in a row return different references to objects with
  equal contents, the second call leaves the first object as it was, and assigning a key
  of the first object afterwards changes that key there and nothing in the second object.
\<close>

theorem createDefault_fresh_defaults:
  assumes c1: "createDefault h = (r1, h1)" and c2: "createDefault h1 = (r2, h2)"
  shows "r1 \<noteq> r2 \<and> r1 < length h2 \<and> r2 < length h2 \<and>
         dom (h1 ! r1) = schema_key ` set TEXT_PROPERTIES \<and>
         distinct (map schema_key TEXT_PROPERTIES) \<and>
         (\<forall>s \<in> set TEXT_PROPERTIES. (h1 ! r1) (schema_key s) = Some (schema_default s)) \<and>
         h2 ! r1 = h1 ! r1 \<and> h2 ! r2 = h2 ! r1 \<and>
         (\<forall>k v. setProp h2 r1 k v ! r2 = h2 ! r2 \<and> (setProp h2 r1 k v ! r1) k = Some v)"
proof -
  let ?d = "fold (\<lambda>schema m. m(schema_key schema \<mapsto> schema_default schema))
              TEXT_PROPERTIES Map.empty"
  have r1: "r1 = length h" and h1: "h1 = h @ [?d]"
    using c1 by (simp_all add: createDefault_eq)
  have r2: "r2 = Suc (length h)" and h2: "h2 = h @ [?d, ?d]"
    using c2 by (simp_all add: createDefault_eq h1)
  have a: "h1 ! r1 = ?d"
    by (simp add: r1 h1)
  have b: "h2 ! r1 = ?d"
    by (simp add: r1 h2 nth_append)
  have c: "h2 ! r2 = ?d"
    by (simp add: r2 h2 nth_append)
  have "dom (h1 ! r1) = schema_key ` set TEXT_PROPERTIES"
    by (simp only: a fold_defaults_dom) simp
  moreover have "\<forall>s \<in> set TEXT_PROPERTIES. (h1 ! r1) (schema_key s) = Some (schema_default s)"
    by (simp only: a) (blast intro: fold_defaults_lookup TEXT_PROPERTIES_distinct)
  moreover have "\<forall>k v. setProp h2 r1 k v ! r2 = h2 ! r2 \<and> (setProp h2 r1 k v ! r1) k = Some v"
    by (simp add: setProp_def r1 r2 h2 nth_append)
  ultimately show ?thesis
    using a b c TEXT_PROPERTIES_distinct by (simp add: r1 r2 h2)
qed

theorem createDefault_fresh_defaults_witness:
  "createDefault [] = (0, snd (createDefault [])) \<and>
   createDefault (snd (createDefault [])) = (1, snd (createDefault (snd (createDefault [])))) \<and>
   (0::nat) \<noteq> 1 \<and>
   (snd (createDefault (snd (createDefault []))) ! 0) ''text'' = Some (JStr ''Hello World'') \<and>
   (setProp (snd (createDefault (snd (createDefault [])))) 0 ''text'' (JStr ''x'') ! 1) ''text''
      = Some (JStr ''Hello World'')"
proof -
  have c1: "createDefault [] = (0, snd (createDefault []))"
    by (simp add: createDefault_eq)
  have c2: "createDefault (snd (createDefault [])) =
              (1, snd (createDefault (snd (createDefault []))))"
    by (simp add: createDefault_eq)
  have t: "schema_key (hd TEXT_PROPERTIES) = ''text'' \<and>
           schema_default (hd TEXT_PROPERTIES) = JStr ''Hello World'' \<and>
           hd TEXT_PROPERTIES \<in> set TEXT_PROPERTIES"
    by (simp add: TEXT_PROPERTIES_def)
  from createDefault_fresh_defaults [OF c1 c2] t c1 c2 show ?thesis
    by metis
qed

section \<open>The range check of the validator\<close>

text \<open>
  Claim C4. The validator is meant to return no violation exactly when \<open>text\<close> is a
  string, \<open>fontSize\<close> is a number within 1 and 1000, and \<open>fontWeight\<close> is the string
  400 or 700. The number \<open>NaN\<close> is not within 1 and 1000, yet both comparisons of the
  validator are false on it: the default properties with \<open>fontSize\<close> set to \<open>NaN\<close>
  pass validation.
\<close>

theorem validate_accepts_NaN:
  "validate (DEFAULTS(''fontSize'' \<mapsto> JNum NaN)) = None"
  by (simp add: validate_def getProp_def DEFAULTS_eq TEXT_PROPERTIES_def)

theorem validate_accepts_NaN_witness:
  "validate (DEFAULTS(''fontSize'' \<mapsto> JNum NaN)) = None \<and>
   typeof (JNum NaN) = ''number'' \<and>
   num_lt NaN (Fin 1) = False \<and> num_lt (Fin 1000) NaN = False"
  using validate_accepts_NaN by simp

section \<open>Failure of the renderers\<close>

text \<open>
  Claim C1, as amended. Over property values that are \<open>undefined\<close>, \<open>null\<close>,
  booleans, numbers or strings: \<open>renderText\<close> returns without throwing whenever the
  text it resolves is falsy (the empty string, 0, \<open>NaN\<close> or \<open>false\<close>) or a
  string, and \<open>renderSVG\<close> returns without throwing whenever the resolved text is a
  string. The validator and \<open>createDefault\<close> contain no operation that can throw:
  their models have no error result.
\<close>

theorem renderers_return:
  fixes p :: LayerProperties
  defines "tval \<equiv> coalesce (getProp p ''text'') (JStr [])"
  shows "(\<not> toBoolean tval \<or> typeof tval = ''string'' \<longrightarrow> snd (renderText rt p ctx b) = Inr ()) \<and>
         (typeof tval = ''string'' \<longrightarrow> (\<exists>s. renderSVG rt p b = Inr s))"
proof (cases tval)
  case (JStr t)
  then have tx: "coalesce (getProp p ''text'') (JStr []) = JStr t"
    by (simp add: tval_def)
  have "snd (renderText rt p ctx b) = Inr ()"
  proof (cases "t = []")
    case True
    then show ?thesis using tx by (simp add: renderText_falsy)
  next
    case False
    from renderText_string [OF tx False] show ?thesis by simp
  qed
  moreover have "\<exists>s. renderSVG rt p b = Inr s"
    using renderSVG_string [OF tx] by simp
  ultimately show ?thesis by simp
next
  case JUndefined
  then show ?thesis using renderText_falsy [of p rt ctx b] by (simp add: tval_def)
next
  case JNull
  then show ?thesis using renderText_falsy [of p rt ctx b] by (simp add: tval_def)
next
  case (JBool x)
  then show ?thesis using renderText_falsy [of p rt ctx b] by (simp add: tval_def)
next
  case (JNum x)
  then show ?thesis using renderText_falsy [of p rt ctx b] by (auto simp add: tval_def)
qed

theorem renderers_return_witness:
  "snd (renderText decimal_runtime DEFAULTS [] BOUNDS) = Inr () \<and>
   (\<exists>s. renderSVG decimal_runtime DEFAULTS BOUNDS = Inr s) \<and>
   snd (renderText decimal_runtime (DEFAULTS(''text'' \<mapsto> JNum (Fin 0))) [] BOUNDS) = Inr ()"
  using renderers_return [of DEFAULTS decimal_runtime "[]" BOUNDS]
    renderers_return [of "DEFAULTS(''text'' \<mapsto> JNum (Fin 0))" decimal_runtime "[]" BOUNDS]
  by (simp add: getProp_DEFAULTS getProp_upd coalesce_simps)

text \<open>
  Claim C1 as stated fails: with the number 42 stored under \<open>text\<close>, the input of
  the validator's own test, both renderers throw a \<open>TypeError\<close>, since a number has
  neither \<open>split\<close> nor \<open>replace\<close>.
\<close>

theorem numeric_text_throws:
  "snd (renderText decimal_runtime (DEFAULTS(''text'' \<mapsto> JNum (Fin 42))) [] BOUNDS) = Inl TypeError \<and>
   renderSVG decimal_runtime (DEFAULTS(''text'' \<mapsto> JNum (Fin 42))) BOUNDS = Inl TypeError"
proof -
  have t: "toBoolean (coalesce (getProp (DEFAULTS(''text'' \<mapsto> JNum (Fin 42))) ''text'') (JStr []))"
    by (simp add: getProp_upd coalesce_simps)
  have s: "typeof (coalesce (getProp (DEFAULTS(''text'' \<mapsto> JNum (Fin 42))) ''text'') (JStr [])) \<noteq> ''string''"
    by (simp add: getProp_upd coalesce_simps)
  from renderText_throws [OF t s, of decimal_runtime "[]" BOUNDS] renderSVG_throws [OF s]
  show ?thesis by auto
qed

section \<open>Fallbacks\<close>

text \<open>
  Claim C2, as amended. \<open>renderText\<close> resolves every styling key to its documented
  fallback exactly when the key is absent or holds \<open>undefined\<close> or \<open>null\<close>, so
  the result for a key that holds \<open>null\<close> or \<open>undefined\<close> equals the result for a
  missing key. A present value of any other kind is not replaced, whatever its type: the
  result of \<open>renderText\<close> is computed from the resolved values as they are. When the
  resolved text is falsy, nothing is done. When it is a non-empty string, the operations
  are the save, the font made of the resolved style, weight, size and family, the
  alignment and the baseline, the shadow attributes if \<open>shadowEnabled\<close> is truthy, for
  each line the stroke (if enabled) and the fill, and the restore. When it is truthy and
  not a string, the call throws after the operations that come before the lines.
\<close>

theorem nullish_key_as_missing:
  fixes p :: LayerProperties and rt :: runtime
  defines "tval \<equiv> spec_resolve p ''text'' (JStr [])"
    and "fontSize \<equiv> spec_resolve p ''fontSize'' (JNum (Fin 48))"
    and "fontFamily \<equiv> spec_resolve p ''fontFamily'' (JStr ''Inter'')"
    and "fontWeight \<equiv> spec_resolve p ''fontWeight'' (JStr ''400'')"
    and "fontStyle \<equiv> spec_resolve p ''fontStyle'' (JStr ''normal'')"
    and "color \<equiv> spec_resolve p ''color'' (JStr ''#ffffff'')"
    and "align \<equiv> spec_resolve p ''align'' (JStr ''left'')"
    and "baseline \<equiv> spec_resolve p ''baseline'' (JStr ''top'')"
    and "lineHeight \<equiv> spec_resolve p ''lineHeight'' (JNum (num_lit 1.2))"
    and "strokeEnabled \<equiv> spec_resolve p ''strokeEnabled'' (JBool False)"
    and "strokeColor \<equiv> spec_resolve p ''strokeColor'' (JStr ''#000000'')"
    and "strokeWidth \<equiv> spec_resolve p ''strokeWidth'' (JNum (Fin 2))"
    and "shadowEnabled \<equiv> spec_resolve p ''shadowEnabled'' (JBool False)"
    and "shadowColor \<equiv> spec_resolve p ''shadowColor'' (JStr ''rgba(0,0,0,0.5)'')"
    and "shadowBlur \<equiv> spec_resolve p ''shadowBlur'' (JNum (Fin 4))"
    and "shadowOffsetX \<equiv> spec_resolve p ''shadowOffsetX'' (JNum (Fin 2))"
    and "shadowOffsetY \<equiv> spec_resolve p ''shadowOffsetY'' (JNum (Fin 2))"
    and "font \<equiv> SetFont (toString rt (spec_resolve p ''fontStyle'' (JStr ''normal'')) @ '' '' @
                          toString rt (spec_resolve p ''fontWeight'' (JStr ''400'')) @ '' '' @
                          toString rt (spec_resolve p ''fontSize'' (JNum (Fin 48))) @ ''px '' @
                          resolveFontStack rt (spec_resolve p ''fontFamily'' (JStr ''Inter'')))"
    and "shadow \<equiv>
           (if toBoolean (spec_resolve p ''shadowEnabled'' (JBool False))
            then [SetShadowColor (spec_resolve p ''shadowColor'' (JStr ''rgba(0,0,0,0.5)'')),
                  SetShadowBlur (spec_resolve p ''shadowBlur'' (JNum (Fin 4))),
                  SetShadowOffsetX (spec_resolve p ''shadowOffsetX'' (JNum (Fin 2))),
                  SetShadowOffsetY (spec_resolve p ''shadowOffsetY'' (JNum (Fin 2)))]
            else [])"
  shows
    "renderText rt (p(k \<mapsto> JNull)) ctx b = renderText rt (p(k := None)) ctx b \<and>
     renderText rt (p(k \<mapsto> JUndefined)) ctx b = renderText rt (p(k := None)) ctx b \<and>
     (\<not> toBoolean tval \<longrightarrow> renderText rt p ctx b = (ctx, Inr ())) \<and>
     (\<forall>t. tval = JStr t \<and> t \<noteq> [] \<longrightarrow>
        renderText rt p ctx b =
          (ctx @ [Save, font, SetTextAlign align, SetTextBaseline baseline] @ shadow @
           concat (map (\<lambda>i.
              (if toBoolean strokeEnabled \<and> js_gt rt strokeWidth (Fin 0)
               then [SetStrokeStyle strokeColor, SetLineWidth strokeWidth, SetLineJoin ''round'',
                     StrokeText (split CHR ''\<newline>'' t ! i) (spec_anchorX align b)
                       (num_add (bounds_y b)
                          (num_mul (Fin (of_nat i)) (js_times rt fontSize lineHeight)))]
               else []) @
              [SetFillStyle color,
               FillText (split CHR ''\<newline>'' t ! i) (spec_anchorX align b)
                 (num_add (bounds_y b)
                    (num_mul (Fin (of_nat i)) (js_times rt fontSize lineHeight)))])
             [0..<length (split CHR ''\<newline>'' t)]) @
           [Restore], Inr ())) \<and>
     (toBoolean tval \<and> typeof tval \<noteq> ''string'' \<longrightarrow>
        renderText rt p ctx b =
          (ctx @ [Save, font, SetTextAlign align, SetTextBaseline baseline] @ shadow,
           Inl TypeError))"
proof -
  have n1: "renderText rt (p(k \<mapsto> JNull)) ctx b = renderText rt (p(k := None)) ctx b"
    by (simp only: renderText_def coalesce_nullish_key)
  have n2: "renderText rt (p(k \<mapsto> JUndefined)) ctx b = renderText rt (p(k := None)) ctx b"
    by (simp only: renderText_def coalesce_nullish_key)
  have f: "renderText rt p ctx b = (ctx, Inr ())" if "\<not> toBoolean tval"
    using that renderText_falsy [of p rt ctx b]
    by (simp add: tval_def coalesce_getProp)
  have s: "renderText rt p ctx b =
          (ctx @ [Save, font, SetTextAlign align, SetTextBaseline baseline] @ shadow @
           concat (map (\<lambda>i.
              (if toBoolean strokeEnabled \<and> js_gt rt strokeWidth (Fin 0)
               then [SetStrokeStyle strokeColor, SetLineWidth strokeWidth, SetLineJoin ''round'',
                     StrokeText (split CHR ''\<newline>'' t ! i) (spec_anchorX align b)
                       (num_add (bounds_y b)
                          (num_mul (Fin (of_nat i)) (js_times rt fontSize lineHeight)))]
               else []) @
              [SetFillStyle color,
               FillText (split CHR ''\<newline>'' t ! i) (spec_anchorX align b)
                 (num_add (bounds_y b)
                    (num_mul (Fin (of_nat i)) (js_times rt fontSize lineHeight)))])
             [0..<length (split CHR ''\<newline>'' t)]) @
           [Restore], Inr ())"
    if "tval = JStr t" "t \<noteq> []" for t
  proof -
    have tx: "coalesce (getProp p ''text'') (JStr []) = JStr t"
      using that(1) by (simp add: tval_def coalesce_getProp)
    show ?thesis
      unfolding renderText_string [OF tx that(2)] assms(2-19) coalesce_getProp
      by simp
  qed
  have e: "renderText rt p ctx b =
          (ctx @ [Save, font, SetTextAlign align, SetTextBaseline baseline] @ shadow,
           Inl TypeError)"
    if "toBoolean tval" "typeof tval \<noteq> ''string''"
  proof -
    have a: "toBoolean (coalesce (getProp p ''text'') (JStr []))"
      using that(1) by (simp add: tval_def coalesce_getProp)
    have b: "typeof (coalesce (getProp p ''text'') (JStr [])) \<noteq> ''string''"
      using that(2) by (simp add: tval_def coalesce_getProp)
    show ?thesis
      unfolding renderText_throws_trace [OF a b] assms(2-19) coalesce_getProp
      by simp
  qed
  from n1 n2 f s e show ?thesis
    by blast
qed

theorem nullish_key_as_missing_witness:
  \<open>renderText decimal_runtime (DEFAULTS(''fontSize'' \<mapsto> JNull)) [] BOUNDS =
     renderText decimal_runtime (DEFAULTS(''fontSize'' := None)) [] BOUNDS \<and>
   renderText decimal_runtime (DEFAULTS(''fontSize'' \<mapsto> JStr ''abc'')) [] BOUNDS =
     ([Save,
       SetFont ''normal 400 abcpx \'Inter\', Inter, -apple-system, BlinkMacSystemFont, \'Segoe UI\', sans-serif'',
       SetTextAlign (JStr ''left''), SetTextBaseline (JStr ''top''),
       SetFillStyle (JStr ''#ffffff''), FillText ''Hello World'' (Fin 10) NaN, Restore],
      Inr ()) \<and>
   renderText decimal_runtime (DEFAULTS(''text'' \<mapsto> JBool False)) [] BOUNDS = ([], Inr ()) \<and>
   renderText decimal_runtime (DEFAULTS(''text'' \<mapsto> JBool True)) [] BOUNDS =
     ([Save,
       SetFont ''normal 400 48px \'Inter\', Inter, -apple-system, BlinkMacSystemFont, \'Segoe UI\', sans-serif'',
       SetTextAlign (JStr ''left''), SetTextBaseline (JStr ''top'')],
      Inl TypeError)\<close>
proof -
  have l: "split CHR ''\<newline>'' ''Hello World'' = [''Hello World'']"
    by (simp add: split_def)
  have r: "read_num ''abc'' = NaN"
    by (simp add: read_num_def is_digits_def)
  show ?thesis
    using nullish_key_as_missing [where p = "DEFAULTS(''fontSize'' \<mapsto> JStr ''abc'')"
        and rt = decimal_runtime and k = "''fontSize''" and ctx = "[]" and b = BOUNDS]
      nullish_key_as_missing [where p = DEFAULTS
        and rt = decimal_runtime and k = "''fontSize''" and ctx = "[]" and b = BOUNDS]
      nullish_key_as_missing [where p = "DEFAULTS(''text'' \<mapsto> JBool False)"
        and rt = decimal_runtime and k = "''fontSize''" and ctx = "[]" and b = BOUNDS]
      nullish_key_as_missing [where p = "DEFAULTS(''text'' \<mapsto> JBool True)"
        and rt = decimal_runtime and k = "''fontSize''" and ctx = "[]" and b = BOUNDS]
    by (simp add: coalesce_getProp [symmetric] getProp_upd getProp_DEFAULTS coalesce_simps l r
          resolveFontStack_Inter js_times_def spec_anchorX_def BOUNDS_def decimal_runtime_def
          show_real_examples double_eval)
qed

text \<open>
  Claim C2 as stated fails: with the string abc stored under \<open>fontSize\<close> the
  renderer assigns a font of size abcpx, and with the key missing a font of size 48px.
\<close>

theorem mistyped_fontSize_differs:
  \<open>fst (renderText decimal_runtime (DEFAULTS(''fontSize'' \<mapsto> JStr ''abc'')) [] BOUNDS) ! 1 =
     SetFont ''normal 400 abcpx \'Inter\', Inter, -apple-system, BlinkMacSystemFont, \'Segoe UI\', sans-serif'' \<and>
   fst (renderText decimal_runtime (DEFAULTS(''fontSize'' := None)) [] BOUNDS) ! 1 =
     SetFont ''normal 400 48px \'Inter\', Inter, -apple-system, BlinkMacSystemFont, \'Segoe UI\', sans-serif'' \<and>
   renderText decimal_runtime (DEFAULTS(''fontSize'' \<mapsto> JStr ''abc'')) [] BOUNDS \<noteq>
   renderText decimal_runtime (DEFAULTS(''fontSize'' := None)) [] BOUNDS\<close>
proof -
  have a: "coalesce (getProp (DEFAULTS(''fontSize'' \<mapsto> JStr ''abc'')) ''text'') (JStr []) =
             JStr ''Hello World''"
    by (simp add: getProp_upd getProp_DEFAULTS coalesce_simps)
  have b: "coalesce (getProp (DEFAULTS(''fontSize'' := None)) ''text'') (JStr []) =
             JStr ''Hello World''"
    using getProp_DEFAULTS(1) by (simp add: getProp_def coalesce_simps)
  have ne: "''Hello World'' \<noteq> []"
    by simp
  have m: "getProp (DEFAULTS(''fontSize'' := None)) k =
             (if k = ''fontSize'' then JUndefined else getProp DEFAULTS k)" for k
    by (simp add: getProp_def)
  have x: \<open>fst (renderText decimal_runtime (DEFAULTS(''fontSize'' \<mapsto> JStr ''abc'')) [] BOUNDS) ! 1 =
     SetFont ''normal 400 abcpx \'Inter\', Inter, -apple-system, BlinkMacSystemFont, \'Segoe UI\', sans-serif''\<close>
    unfolding renderText_string [OF a ne]
    by (simp add: getProp_upd getProp_DEFAULTS coalesce_simps resolveFontStack_Inter)
  have y: \<open>fst (renderText decimal_runtime (DEFAULTS(''fontSize'' := None)) [] BOUNDS) ! 1 =
     SetFont ''normal 400 48px \'Inter\', Inter, -apple-system, BlinkMacSystemFont, \'Segoe UI\', sans-serif''\<close>
    unfolding renderText_string [OF b ne]
    by (simp add: m getProp_DEFAULTS coalesce_simps resolveFontStack_Inter decimal_runtime_def
          show_real_examples)
  have "fst (renderText decimal_runtime (DEFAULTS(''fontSize'' \<mapsto> JStr ''abc'')) [] BOUNDS) ! 1 \<noteq>
        fst (renderText decimal_runtime (DEFAULTS(''fontSize'' := None)) [] BOUNDS) ! 1"
    unfolding x y by simp
  then have "renderText decimal_runtime (DEFAULTS(''fontSize'' \<mapsto> JStr ''abc'')) [] BOUNDS \<noteq>
             renderText decimal_runtime (DEFAULTS(''fontSize'' := None)) [] BOUNDS"
    by auto
  with x y show ?thesis
    by blast
qed

section \<open>Save and restore\<close>




section \<open>Lines\<close>




text \<open>
  Claim C8. When the resolved text is a non-empty string, the draw calls of
  \<open>renderText\<close> are, line by line in order: a stroke call if \<open>strokeEnabled\<close> is
  truthy and \<open>strokeWidth > 0\<close>, and then, always, the fill call of that line at the same
  coordinates. So the stroke of a line comes right before its fill, every line is filled
  once. For every mapping, there is no stroke call at all when \<open>strokeEnabled\<close> is
  falsy or \<open>strokeWidth\<close> is not greater than 0.
\<close>

theorem stroke_before_fill:
  fixes p :: LayerProperties
  defines "fontSize \<equiv> coalesce (getProp p ''fontSize'') (JNum (Fin 48))"
    and "lineHeight \<equiv> coalesce (getProp p ''lineHeight'') (JNum (num_lit 1.2))"
    and "align \<equiv> coalesce (getProp p ''align'') (JStr ''left'')"
    and "strokeEnabled \<equiv> coalesce (getProp p ''strokeEnabled'') (JBool False)"
    and "strokeWidth \<equiv> coalesce (getProp p ''strokeWidth'') (JNum (Fin 2))"
  shows "(coalesce (getProp p ''text'') (JStr []) = JStr t \<and> t \<noteq> [] \<longrightarrow>
     filter isDraw (fst (renderText rt p [] b)) =
     concat (map (\<lambda>i.
        (if toBoolean strokeEnabled \<and> js_gt rt strokeWidth (Fin 0)
         then [StrokeText (split CHR ''\<newline>'' t ! i) (spec_anchorX align b)
                 (num_add (bounds_y b)
                    (num_mul (Fin (of_nat i)) (js_times rt fontSize lineHeight)))]
         else []) @
        [FillText (split CHR ''\<newline>'' t ! i) (spec_anchorX align b)
           (num_add (bounds_y b)
              (num_mul (Fin (of_nat i)) (js_times rt fontSize lineHeight)))])
       [0..<length (split CHR ''\<newline>'' t)])) \<and>
    (\<not> (toBoolean strokeEnabled \<and> js_gt rt strokeWidth (Fin 0)) \<longrightarrow>
       filter isStroke (fst (renderText rt p [] b)) = [])"
proof -
  let ?t = "coalesce (getProp p ''text'') (JStr [])"
  have draws: "filter isDraw (fst (renderText rt p [] b)) =
     concat (map (\<lambda>i.
        (if toBoolean strokeEnabled \<and> js_gt rt strokeWidth (Fin 0)
         then [StrokeText (split CHR ''\<newline>'' t ! i) (spec_anchorX align b)
                 (num_add (bounds_y b)
                    (num_mul (Fin (of_nat i)) (js_times rt fontSize lineHeight)))]
         else []) @
        [FillText (split CHR ''\<newline>'' t ! i) (spec_anchorX align b)
           (num_add (bounds_y b)
              (num_mul (Fin (of_nat i)) (js_times rt fontSize lineHeight)))])
       [0..<length (split CHR ''\<newline>'' t)])"
    if tx: "?t = JStr t" and ne: "t \<noteq> []"
    unfolding renderText_string [OF tx ne] assms(1-5)
    by (simp only: fst_conv append_Nil filter_append filter_lineOps_draw) simp
  have sd: "filter isStroke xs = filter isStroke (filter isDraw xs)" for xs
    by (induction xs) (auto dest: isStroke_isDraw)
  have none: "filter isStroke (fst (renderText rt p [] b)) = []"
    if off: "\<not> (toBoolean strokeEnabled \<and> js_gt rt strokeWidth (Fin 0))"
  proof (cases "toBoolean ?t")
    case False
    then show ?thesis by (simp add: renderText_falsy)
  next
    case True
    show ?thesis
    proof (cases "typeof ?t = ''string''")
      case False
      from renderText_throws [OF True False, of rt "[]" b] show ?thesis
        by (subst sd) (auto simp add: list_ex_iff filter_empty_conv)
    next
      case str: True
      then obtain s where tx: "?t = JStr s"
        by (cases ?t) auto
      with True have ne: "s \<noteq> []"
        by simp
      have "filter isDraw (fst (renderText rt p [] b)) =
              map (\<lambda>i. FillText (split CHR ''\<newline>'' s ! i) (spec_anchorX align b)
                 (num_add (bounds_y b)
                    (num_mul (Fin (of_nat i)) (js_times rt fontSize lineHeight))))
                [0..<length (split CHR ''\<newline>'' s)]"
        using off unfolding renderText_string [OF tx ne] assms(1-5)
        by (simp only: fst_conv append_Nil filter_append filter_lineOps_draw) simp
      then show ?thesis
        by (subst sd) (simp add: filter_empty_conv)
    qed
  qed
  from draws none show ?thesis
    by blast
qed

theorem stroke_before_fill_witness:
  "filter isDraw (fst (renderText decimal_runtime
      (DEFAULTS(''text'' \<mapsto> JStr ''Outlined'', ''strokeEnabled'' \<mapsto> JBool True,
                ''strokeColor'' \<mapsto> JStr ''#ff0000'', ''strokeWidth'' \<mapsto> JNum (Fin 3))) [] BOUNDS)) =
     [StrokeText ''Outlined'' (Fin 10) (Fin 20), FillText ''Outlined'' (Fin 10) (Fin 20)] \<and>
   filter isDraw (fst (renderText decimal_runtime
      (DEFAULTS(''text'' \<mapsto> JStr ''Outlined'', ''strokeEnabled'' \<mapsto> JBool True,
                ''strokeColor'' \<mapsto> JStr ''#ff0000'', ''strokeWidth'' \<mapsto> JNum (Fin 0))) [] BOUNDS)) =
     [FillText ''Outlined'' (Fin 10) (Fin 20)] \<and>
   filter isStroke (fst (renderText decimal_runtime DEFAULTS [] BOUNDS)) = []"
proof -
  let ?p = "DEFAULTS(''text'' \<mapsto> JStr ''Outlined'', ''strokeEnabled'' \<mapsto> JBool True,
                ''strokeColor'' \<mapsto> JStr ''#ff0000'', ''strokeWidth'' \<mapsto> JNum (Fin 3))"
  let ?q = "DEFAULTS(''text'' \<mapsto> JStr ''Outlined'', ''strokeEnabled'' \<mapsto> JBool True,
                ''strokeColor'' \<mapsto> JStr ''#ff0000'', ''strokeWidth'' \<mapsto> JNum (Fin 0))"
  have l: "split CHR ''\<newline>'' ''Outlined'' = [''Outlined'']"
    by (simp add: split_def)
  show ?thesis
    using stroke_before_fill [of ?p "''Outlined''" decimal_runtime BOUNDS]
      stroke_before_fill [of ?q "''Outlined''" decimal_runtime BOUNDS]
      stroke_before_fill [of DEFAULTS "''Hello World''" decimal_runtime BOUNDS]
    by (simp add: l getProp_upd getProp_DEFAULTS coalesce_simps js_times_def js_gt_def
          spec_anchorX_def BOUNDS_def double_eval)
qed

section \<open>Agreement of the two renderers\<close>

text \<open>
  Claim C6. Every draw call of \<open>renderText\<close> is at the x-coordinate that the
  specification gives for the resolved \<open>align\<close>, and every element that
  \<open>renderSVG\<close> returns starts with that same number as its \<open>x\<close> attribute and
  ends with the specification's keyword as \<open>text-anchor\<close>, the escaped text and the
  closing tag. The anchor is
  \<open>bounds.x + bounds.width / 2\<close> for center, \<open>bounds.x + bounds.width\<close> for right and
  \<open>bounds.x\<close> for every other value; the keyword is middle for center and end for
  right.
\<close>

theorem anchor_agrees:
  fixes p :: LayerProperties
  defines "align \<equiv> coalesce (getProp p ''align'') (JStr ''left'')"
  shows \<open>(\<forall>op \<in> set (fst (renderText rt p [] b)).
            isDraw op \<longrightarrow> drawX op = Some (spec_anchorX align b)) \<and>
         (\<forall>s. renderSVG rt p b = Inr s \<longrightarrow>
            (\<exists>t attrs. coalesce (getProp p ''text'') (JStr []) = JStr t \<and>
               s = ''<text x="'' @ numToString rt (spec_anchorX align b) @ ''" y="'' @ attrs @
                   ''" text-anchor="'' @ spec_textAnchor align @ ''">'' @ spec_escape t @
                   ''</text>'')) \<and>
         spec_anchorX (JStr ''center'') b =
           num_add (bounds_x b) (num_div (bounds_width b) (Fin 2)) \<and>
         spec_anchorX (JStr ''right'') b = num_add (bounds_x b) (bounds_width b) \<and>
         (align \<noteq> JStr ''center'' \<and> align \<noteq> JStr ''right'' \<longrightarrow>
            spec_anchorX align b = bounds_x b) \<and>
         spec_textAnchor (JStr ''center'') = ''middle'' \<and>
         spec_textAnchor (JStr ''right'') = ''end''\<close>
proof -
  let ?t = "coalesce (getProp p ''text'') (JStr [])"
  have draw: "drawX op = Some (spec_anchorX align b)"
    if "op \<in> set (fst (renderText rt p [] b))" "isDraw op" for op
  proof (cases "toBoolean ?t")
    case False
    with that show ?thesis by (simp add: renderText_falsy)
  next
    case True
    show ?thesis
    proof (cases "typeof ?t = ''string''")
      case False
      from renderText_throws [OF True False, of rt "[]" b] that show ?thesis
        by (auto simp add: list_ex_iff)
    next
      case True
      then obtain t where tx: "?t = JStr t"
        by (cases ?t) auto
      with \<open>toBoolean ?t\<close> have ne: "t \<noteq> []" by simp
      from that show ?thesis
        unfolding renderText_string [OF tx ne] align_def
        by (auto split: if_splits)
    qed
  qed
  have svg: \<open>\<exists>t attrs. ?t = JStr t \<and>
               s = ''<text x="'' @ numToString rt (spec_anchorX align b) @ ''" y="'' @ attrs @
                   ''" text-anchor="'' @ spec_textAnchor align @ ''">'' @ spec_escape t @
                   ''</text>''\<close>
    if "renderSVG rt p b = Inr s" for s
  proof (cases "typeof ?t = ''string''")
    case False
    from renderSVG_throws [OF False, of rt b] that show ?thesis by simp
  next
    case True
    then obtain t where tx: "?t = JStr t"
      by (cases ?t) auto
    from that have \<open>s = ''<text x="'' @ numToString rt (spec_anchorX align b) @ ''" y="'' @
         (toString rt (js_plus rt (bounds_y b) (coalesce (getProp p ''fontSize'') (JNum (Fin 48)))) @
          ''" font-family="'' @ toString rt (coalesce (getProp p ''fontFamily'') (JStr ''Inter'')) @
          ''" font-size="'' @ toString rt (coalesce (getProp p ''fontSize'') (JNum (Fin 48))) @
          ''" font-weight="'' @ toString rt (coalesce (getProp p ''fontWeight'') (JStr ''400'')) @
          ''" font-style="'' @ toString rt (coalesce (getProp p ''fontStyle'') (JStr ''normal'')) @
          ''" fill="'' @ toString rt (coalesce (getProp p ''color'') (JStr ''#ffffff''))) @
         ''" text-anchor="'' @ spec_textAnchor align @
         ''">'' @ spec_escape t @ ''</text>''\<close>
      unfolding renderSVG_string [OF tx] align_def by simp
    with tx show ?thesis
      by blast
  qed
  show ?thesis
    using draw svg by (auto simp add: spec_anchorX_def spec_textAnchor_def)
qed

theorem anchor_agrees_witness:
  \<open>FillText ''Hello World'' (Fin 210) (Fin 20) \<in>
     set (fst (renderText decimal_runtime (DEFAULTS(''align'' \<mapsto> JStr ''center'')) [] BOUNDS)) \<and>
   drawX (FillText ''Hello World'' (Fin 210) (Fin 20)) =
     Some (spec_anchorX (JStr ''center'') BOUNDS) \<and>
   (\<exists>attrs. renderSVG decimal_runtime (DEFAULTS(''align'' \<mapsto> JStr ''center'')) BOUNDS =
      Inr (''<text x="210" y="'' @ attrs @ ''" text-anchor="middle">Hello World</text>''))\<close>
proof -
  let ?p = "DEFAULTS(''align'' \<mapsto> JStr ''center'')"
  have tx: "coalesce (getProp ?p ''text'') (JStr []) = JStr ''Hello World''"
    by (simp add: getProp_upd getProp_DEFAULTS coalesce_simps)
  have al: "coalesce (getProp ?p ''align'') (JStr ''left'') = JStr ''center''"
    by (simp add: getProp_upd coalesce_simps)
  have x: "spec_anchorX (JStr ''center'') BOUNDS = Fin 210"
    by (simp add: spec_anchorX_def BOUNDS_def double_eval)
  have e: "spec_escape ''Hello World'' = ''Hello World''"
    by (simp add: spec_escape_def spec_escapeChar_def)
  have m: "FillText ''Hello World'' (Fin 210) (Fin 20) \<in>
     set (fst (renderText decimal_runtime ?p [] BOUNDS))"
    unfolding renderText_string [OF tx, simplified] al x
    by (simp add: split_def getProp_upd getProp_DEFAULTS coalesce_simps js_times_def BOUNDS_def
          double_eval)
  obtain s where s: "renderSVG decimal_runtime ?p BOUNDS = Inr s"
    using renderSVG_string [OF tx] by simp
  from anchor_agrees [of decimal_runtime ?p BOUNDS] m s show ?thesis
    by (auto simp add: tx al x e decimal_runtime_def show_real_examples spec_textAnchor_def)
qed

text \<open>
  Claim C7. The three replacements of \<open>renderSVG\<close>, applied one after the other
  with the ampersand first, amount to a single pass over the text that replaces each of
  the three characters by its entity and keeps every other character: no entity is
  escaped again. The element returned for a text \<open>t\<close> ends with that escaped text and
  the closing tag.
\<close>

theorem escape_single_pass:
  \<open>replace CHR ''>'' ''&gt;'' (replace CHR ''<'' ''&lt;'' (replace CHR ''&'' ''&amp;'' t)) =
     spec_escape t \<and>
   (coalesce (getProp p ''text'') (JStr []) = JStr t \<longrightarrow>
      (\<exists>attrs. renderSVG rt p b =
         Inr (''<text x="'' @ attrs @ ''">'' @ spec_escape t @ ''</text>'')))\<close>
proof -
  have \<open>\<exists>attrs. renderSVG rt p b = Inr (''<text x="'' @ attrs @ ''">'' @ spec_escape t @ ''</text>'')\<close>
    if tx: "coalesce (getProp p ''text'') (JStr []) = JStr t"
  proof -
    have \<open>renderSVG rt p b = Inr (''<text x="'' @
       (numToString rt (spec_anchorX (coalesce (getProp p ''align'') (JStr ''left'')) b) @
         ''" y="'' @ toString rt (js_plus rt (bounds_y b) (coalesce (getProp p ''fontSize'') (JNum (Fin 48)))) @
         ''" font-family="'' @ toString rt (coalesce (getProp p ''fontFamily'') (JStr ''Inter'')) @
         ''" font-size="'' @ toString rt (coalesce (getProp p ''fontSize'') (JNum (Fin 48))) @
         ''" font-weight="'' @ toString rt (coalesce (getProp p ''fontWeight'') (JStr ''400'')) @
         ''" font-style="'' @ toString rt (coalesce (getProp p ''fontStyle'') (JStr ''normal'')) @
         ''" fill="'' @ toString rt (coalesce (getProp p ''color'') (JStr ''#ffffff'')) @
         ''" text-anchor="'' @ spec_textAnchor (coalesce (getProp p ''align'') (JStr ''left''))) @
         ''">'' @ spec_escape t @ ''</text>'')\<close>
      unfolding renderSVG_string [OF tx] by simp
    then show ?thesis by blast
  qed
  then show ?thesis
    by (simp add: replace_chain)
qed

theorem escape_single_pass_witness:
  \<open>replace CHR ''>'' ''&gt;'' (replace CHR ''<'' ''&lt;'' (replace CHR ''&'' ''&amp;'' ''<script>&test'')) =
     ''&lt;script&gt;&amp;test'' \<and>
   (\<exists>attrs. renderSVG decimal_runtime (DEFAULTS(''text'' \<mapsto> JStr ''<script>&test'')) BOUNDS =
      Inr (''<text x="'' @ attrs @ ''">&lt;script&gt;&amp;test</text>''))\<close>
  using escape_single_pass [of "''<script>&test''" "DEFAULTS(''text'' \<mapsto> JStr ''<script>&test'')"
      decimal_runtime BOUNDS]
  by (simp add: getProp_upd coalesce_simps spec_escape_def spec_escapeChar_def)

text \<open>
  Claim C10. \<open>renderSVG\<close> puts the resolved \<open>fontFamily\<close>, \<open>fontWeight\<close>,
  \<open>fontStyle\<close> and \<open>color\<close> between the double quotes of their attributes as
  they are, with no escaping; and there is a mapping whose \<open>color\<close> contains a double
  quote for which the element returned contains that color, double quote included, as
  the value of \<open>fill\<close>.
\<close>

theorem attributes_verbatim:
  fixes p :: LayerProperties
  defines "fontFamily \<equiv> coalesce (getProp p ''fontFamily'') (JStr ''Inter'')"
    and "fontWeight \<equiv> coalesce (getProp p ''fontWeight'') (JStr ''400'')"
    and "fontStyle \<equiv> coalesce (getProp p ''fontStyle'') (JStr ''normal'')"
    and "color \<equiv> coalesce (getProp p ''color'') (JStr ''#ffffff'')"
  shows
  \<open>(coalesce (getProp p ''text'') (JStr []) = JStr t \<longrightarrow>
      (\<exists>pre mid post. renderSVG rt p b =
         Inr (pre @ ''" font-family="'' @ toString rt fontFamily @
              ''" font-size="'' @ mid @
              ''" font-weight="'' @ toString rt fontWeight @
              ''" font-style="'' @ toString rt fontStyle @
              ''" fill="'' @ toString rt color @
              ''" text-anchor="'' @ post))) \<and>
   (\<exists>q c. getProp q ''color'' = JStr c \<and> CHR 0x22 \<in> set c \<and>
      (\<exists>pre post. renderSVG rt q b = Inr (pre @ ''" fill="'' @ c @ ''" text-anchor="'' @ post)))\<close>
proof -
  have gen: \<open>\<exists>pre mid post. renderSVG rt q b =
         Inr (pre @ ''" font-family="'' @ toString rt (coalesce (getProp q ''fontFamily'') (JStr ''Inter'')) @
              ''" font-size="'' @ mid @
              ''" font-weight="'' @ toString rt (coalesce (getProp q ''fontWeight'') (JStr ''400'')) @
              ''" font-style="'' @ toString rt (coalesce (getProp q ''fontStyle'') (JStr ''normal'')) @
              ''" fill="'' @ toString rt (coalesce (getProp q ''color'') (JStr ''#ffffff'')) @
              ''" text-anchor="'' @ post)\<close>
    if tx: "coalesce (getProp q ''text'') (JStr []) = JStr s" for q s
  proof -
    have \<open>renderSVG rt q b =
      Inr ((''<text x="'' @ numToString rt (spec_anchorX (coalesce (getProp q ''align'') (JStr ''left'')) b) @
            ''" y="'' @ toString rt (js_plus rt (bounds_y b) (coalesce (getProp q ''fontSize'') (JNum (Fin 48))))) @
         ''" font-family="'' @ toString rt (coalesce (getProp q ''fontFamily'') (JStr ''Inter'')) @
         ''" font-size="'' @ toString rt (coalesce (getProp q ''fontSize'') (JNum (Fin 48))) @
         ''" font-weight="'' @ toString rt (coalesce (getProp q ''fontWeight'') (JStr ''400'')) @
         ''" font-style="'' @ toString rt (coalesce (getProp q ''fontStyle'') (JStr ''normal'')) @
         ''" fill="'' @ toString rt (coalesce (getProp q ''color'') (JStr ''#ffffff'')) @
         ''" text-anchor="'' @
           (spec_textAnchor (coalesce (getProp q ''align'') (JStr ''left'')) @
            ''">'' @ spec_escape s @ ''</text>''))\<close>
      unfolding renderSVG_string [OF tx] by simp
    then show ?thesis by blast
  qed
  let ?q = \<open>[''color'' \<mapsto> JStr ''red" onload="alert(1)'']\<close>
  have tq: "coalesce (getProp ?q ''text'') (JStr []) = JStr []"
    by (simp add: getProp_def coalesce_simps)
  have cq: \<open>getProp ?q ''color'' = JStr ''red" onload="alert(1)''\<close>
    by (simp add: getProp_def)
  from gen [OF tq] obtain pre mid post where
    \<open>renderSVG rt ?q b =
         Inr ((pre @ ''" font-family="'' @ toString rt (coalesce (getProp ?q ''fontFamily'') (JStr ''Inter'')) @
              ''" font-size="'' @ mid @
              ''" font-weight="'' @ toString rt (coalesce (getProp ?q ''fontWeight'') (JStr ''400'')) @
              ''" font-style="'' @ toString rt (coalesce (getProp ?q ''fontStyle'') (JStr ''normal''))) @
              ''" fill="'' @ ''red" onload="alert(1)'' @
              ''" text-anchor="'' @ post)\<close>
    by (auto simp add: cq coalesce_simps)
  then have \<open>\<exists>pre post. renderSVG rt ?q b =
      Inr (pre @ ''" fill="'' @ ''red" onload="alert(1)'' @ ''" text-anchor="'' @ post)\<close>
    by blast
  moreover have \<open>CHR 0x22 \<in> set ''red" onload="alert(1)''\<close>
    by simp
  ultimately have \<open>\<exists>q c. getProp q ''color'' = JStr c \<and> CHR 0x22 \<in> set c \<and>
      (\<exists>pre post. renderSVG rt q b = Inr (pre @ ''" fill="'' @ c @ ''" text-anchor="'' @ post))\<close>
    using cq by blast
  then show ?thesis
    using gen [of p t] unfolding fontFamily_def fontWeight_def fontStyle_def color_def
    by blast
qed

theorem attributes_verbatim_witness:
  \<open>\<exists>pre mid post.
     renderSVG decimal_runtime (DEFAULTS(''color'' \<mapsto> JStr ''red" onload="alert(1)'')) BOUNDS =
       Inr (pre @ ''" font-family="Inter" font-size="'' @ mid @
            ''" font-weight="400" font-style="normal" fill="red" onload="alert(1)" text-anchor="'' @
            post)\<close>
  using attributes_verbatim [of \<open>DEFAULTS(''color'' \<mapsto> JStr ''red" onload="alert(1)'')\<close>
      "''Hello World''" decimal_runtime BOUNDS]
  by (simp add: getProp_upd getProp_DEFAULTS coalesce_simps)

end
